theory Spec2Isabelle
  imports Complex_Main
begin

section \<open>Kinematics.py: quaternions, Euler angles and the attitude tracker\<close>

text \<open>
  Python floats are modelled as the reals: \<open>+\<close>, \<open>-\<close>, \<open>*\<close>, \<open>**2\<close>, \<open>math.sqrt\<close>,
  \<open>math.sin\<close>, \<open>math.cos\<close>, \<open>math.asin\<close> and \<open>math.atan2\<close> are the exact operations, so
  rounding, signed zeros, infinities and NaN are outside the model, and so is overflow except
  in the definitions that carry the range of doubles. What Python raises is
  kept: a division by zero raises \<open>ZeroDivisionError\<close>, and \<open>math.sqrt\<close> and
  \<open>math.asin\<close> raise \<open>ValueError\<close> outside their domains. A function that returns a value
  has the type \<open>py_error + 'a\<close>; a method that mutates \<open>self\<close> returns the exception it
  raised, if any, together with the object as the exception left it.
\<close>

subsection \<open>Python primitives\<close>

datatype py_error = ZeroDivisionError | ValueError | OverflowError

definition py_div :: "real \<Rightarrow> real \<Rightarrow> py_error + real" where
  "py_div a b = (if b = 0 then Inl ZeroDivisionError else Inr (a / b))"

definition math_sqrt :: "real \<Rightarrow> py_error + real" where
  "math_sqrt v = (if v < 0 then Inl ValueError else Inr (sqrt v))"

definition math_asin :: "real \<Rightarrow> py_error + real" where
  "math_asin v = (if v < -1 \<or> 1 < v then Inl ValueError else Inr (arcsin v))"

text \<open>\<open>math.atan2(b, a)\<close>: the angle of the point \<open>(a, b)\<close>, in \<open>(-pi, pi]\<close>; it never raises.\<close>

definition math_atan2 :: "real \<Rightarrow> real \<Rightarrow> real" where
  "math_atan2 b a =
     (if 0 < a then arctan (b / a)
      else if a < 0 then (if 0 \<le> b then arctan (b / a) + pi else arctan (b / a) - pi)
      else if 0 < b then pi / 2
      else if b < 0 then - (pi / 2)
      else 0)"

text \<open>\<open>_wrap_asin\<close>, lines 276-282.\<close>

definition wrap_asin :: "real \<Rightarrow> py_error + real" where
  "wrap_asin v =
     (if v \<ge> 1 then Inr (pi / 2)
      else if v \<le> -1 then Inr (- pi / 2)
      else math_asin v)"

subsection \<open>Data\<close>

record Quaternion =
  w :: real
  x :: real
  y :: real
  z :: real

record EulerAngles =
  yaw :: real
  pitch :: real
  roll :: real

text \<open>
  A quaternion argument of the tracker is an object reference. The constructor of
  \<open>Kinematics\<close> stores \<open>self\<close> as the target, and \<open>setTarget\<close> and \<open>rotateTarget\<close> pass
  \<open>self\<close> as the attitude, so a reference is either the tracker itself or another object,
  given by its components.
\<close>

datatype qref = Self | Obj Quaternion

text \<open>\<open>class Kinematics(Quaternion)\<close>: the tracker's own components are its attitude.\<close>

record Kinematics = Quaternion +
  target :: qref
  time :: real
  degSecYPR :: "real \<times> real \<times> real"
  error :: Quaternion

definition as_Quaternion :: "Kinematics \<Rightarrow> Quaternion" where
  "as_Quaternion k = \<lparr>w = w k, x = x k, y = y k, z = z k\<rparr>"

definition deref :: "Kinematics \<Rightarrow> qref \<Rightarrow> Quaternion" where
  "deref k r = (case r of Self \<Rightarrow> as_Quaternion k | Obj q \<Rightarrow> q)"

subsection \<open>Quaternion\<close>

definition magnitude :: "Quaternion \<Rightarrow> py_error + real" where
  "magnitude q = math_sqrt ((w q)\<^sup>2 + (x q)\<^sup>2 + (y q)\<^sup>2 + (z q)\<^sup>2)"

text \<open>
  The body of the \<open>try\<close> in \<open>normalise\<close>: four in-place divisions, one after the other, each
  of which may raise after the earlier ones have been stored.
\<close>

definition normalise_try :: "Quaternion \<Rightarrow> py_error option \<times> Quaternion" where
  "normalise_try q =
     (case magnitude q of Inl e \<Rightarrow> (Some e, q) | Inr m \<Rightarrow>
      (case py_div (w q) m of Inl e \<Rightarrow> (Some e, q) | Inr a \<Rightarrow>
       (let q1 = q\<lparr>w := a\<rparr> in
        case py_div (x q1) m of Inl e \<Rightarrow> (Some e, q1) | Inr b \<Rightarrow>
        (let q2 = q1\<lparr>x := b\<rparr> in
         case py_div (y q2) m of Inl e \<Rightarrow> (Some e, q2) | Inr c \<Rightarrow>
         (let q3 = q2\<lparr>y := c\<rparr> in
          case py_div (z q3) m of Inl e \<Rightarrow> (Some e, q3) | Inr d \<Rightarrow>
            (None, q3\<lparr>z := d\<rparr>))))))"

text \<open>\<open>except ZeroDivisionError: pass\<close>; any other exception goes on to the caller.\<close>

definition normalise :: "Quaternion \<Rightarrow> py_error option \<times> Quaternion" where
  "normalise q =
     (case normalise_try q of
        (Some ZeroDivisionError, q') \<Rightarrow> (None, q')
      | r \<Rightarrow> r)"

text \<open>\<open>Quaternion.__init__\<close>: the loop over \<open>a\<close> only rebinds its own variable.\<close>

definition Quaternion_init :: "real \<Rightarrow> real \<Rightarrow> real \<Rightarrow> real \<Rightarrow> py_error + Quaternion" where
  "Quaternion_init a b c d =
     (case normalise \<lparr>w = a, x = b, y = c, z = d\<rparr> of
        (Some e, _) \<Rightarrow> Inl e
      | (None, q) \<Rightarrow> Inr q)"

definition conjugate :: "Quaternion \<Rightarrow> py_error + Quaternion" where
  "conjugate q = Quaternion_init (w q) (- x q) (- y q) (- z q)"

definition productOf :: "Quaternion \<Rightarrow> Quaternion \<Rightarrow> py_error + Quaternion" where
  "productOf p q =
     Quaternion_init (w p * w q - x p * x q - y p * y q - z p * z q)
                     (w p * x q + x p * w q + y p * z q - z p * y q)
                     (w p * y q - x p * z q + y p * w q + z p * x q)
                     (w p * z q + x p * y q - y p * x q + z p * w q)"

definition difference :: "Quaternion \<Rightarrow> Quaternion \<Rightarrow> py_error + Quaternion" where
  "difference p q =
     (case conjugate p of Inl e \<Rightarrow> Inl e | Inr pc \<Rightarrow> productOf q pc)"

definition toEuler :: "Quaternion \<Rightarrow> py_error + EulerAngles" where
  "toEuler q =
     (let yw = math_atan2 (2 * (w q * z q + x q * y q)) (1 - 2 * ((y q)\<^sup>2 + (z q)\<^sup>2)) / pi * 180;
          rl = math_atan2 (2 * (w q * x q + y q * z q)) (1 - 2 * ((x q)\<^sup>2 + (y q)\<^sup>2)) / pi * 180
      in case wrap_asin (2 * (w q * y q - z q * x q)) of
           Inl e \<Rightarrow> Inl e
         | Inr a \<Rightarrow> Inr \<lparr>yaw = yw, pitch = a / pi * 180, roll = rl\<rparr>)"

subsection \<open>EulerAngles\<close>



subsection \<open>Kinematics\<close>

text \<open>
  \<open>time.time()\<close> is the argument \<open>now\<close> of every operation that reads the clock.
\<close>

definition Kinematics_init :: "real \<Rightarrow> real \<Rightarrow> real \<Rightarrow> real \<Rightarrow> real \<Rightarrow> py_error + Kinematics" where
  "Kinematics_init a b c d now =
     (case Quaternion_init a b c d of Inl e \<Rightarrow> Inl e | Inr q \<Rightarrow>
      (case difference q q of Inl e \<Rightarrow> Inl e | Inr er \<Rightarrow>
         Inr \<lparr>w = w q, x = x q, y = y q, z = z q,
              target = Self, time = now, degSecYPR = (0, 0, 0), error = er\<rparr>))"

definition getAngularVelocities :: "Kinematics \<Rightarrow> real \<times> real \<times> real" where
  "getAngularVelocities k = degSecYPR k"

definition getErrorQuaternion :: "Kinematics \<Rightarrow> Quaternion" where
  "getErrorQuaternion k = error k"

text \<open>
  \<open>update\<close>, lines 247-270. The timestamp, the four components and the target are stored
  before the velocities are computed; an exception leaves the tracker as it was when the
  exception was raised.
\<close>

definition update :: "Kinematics \<Rightarrow> qref \<Rightarrow> qref \<Rightarrow> real \<Rightarrow> py_error option \<times> Kinematics" where
  "update k attitude tgt now =
     (let prevTime = time k;
          k1 = k\<lparr>time := now\<rparr>;
          dt = time k1 - prevTime
      in case Quaternion_init (w k1) (x k1) (y k1) (z k1) of Inl e \<Rightarrow> (Some e, k1) | Inr prev \<Rightarrow>
         (let k2 = k1\<lparr>w := w (deref k1 attitude)\<rparr>;
              k3 = k2\<lparr>x := x (deref k2 attitude)\<rparr>;
              k4 = k3\<lparr>y := y (deref k3 attitude)\<rparr>;
              k5 = k4\<lparr>z := z (deref k4 attitude)\<rparr>;
              k6 = k5\<lparr>target := tgt\<rparr>
          in case difference prev (as_Quaternion k6) of Inl e \<Rightarrow> (Some e, k6) | Inr dq \<Rightarrow>
             (case toEuler dq of Inl e \<Rightarrow> (Some e, k6) | Inr delta \<Rightarrow>
              (case py_div (yaw delta) dt of Inl e \<Rightarrow> (Some e, k6) | Inr vy \<Rightarrow>
               (case py_div (pitch delta) dt of Inl e \<Rightarrow> (Some e, k6) | Inr vp \<Rightarrow>
                (case py_div (roll delta) dt of Inl e \<Rightarrow> (Some e, k6) | Inr vr \<Rightarrow>
                 (let k7 = k6\<lparr>degSecYPR := (vy, vp, vr)\<rparr>
                  in case difference (as_Quaternion k7) (deref k7 (target k7)) of
                       Inl e \<Rightarrow> (Some e, k7)
                     | Inr er \<Rightarrow> (None, k7\<lparr>error := er\<rparr>))))))))"

definition setTarget :: "Kinematics \<Rightarrow> qref \<Rightarrow> real \<Rightarrow> py_error option \<times> Kinematics" where
  "setTarget k q now = (let k1 = k\<lparr>target := q\<rparr> in update k1 Self q now)"

definition rotateTarget :: "Kinematics \<Rightarrow> qref \<Rightarrow> real \<Rightarrow> py_error option \<times> Kinematics" where
  "rotateTarget k q now =
     (case productOf (deref k (target k)) (deref k q) of
        Inl e \<Rightarrow> (Some e, k)
      | Inr t \<Rightarrow> (let k1 = k\<lparr>target := Obj t\<rparr> in update k1 Self (target k1) now))"

subsection \<open>Quaternion, with the range of doubles\<close>











section \<open>Closed forms of the constructor\<close>

text \<open>
  The magnitude never raises, since its argument is a sum of squares; \<open>normalise\<close> and the
  constructor therefore never raise either, and they leave a quaternion of magnitude zero
  as it is and scale every other one by its magnitude.
\<close>

lemma magnitude_eq: "magnitude q = Inr (sqrt ((w q)\<^sup>2 + (x q)\<^sup>2 + (y q)\<^sup>2 + (z q)\<^sup>2))"
  by (simp add: magnitude_def math_sqrt_def not_less)

lemma sumsq_zero_iff:
  "(a::real)\<^sup>2 + b\<^sup>2 + c\<^sup>2 + d\<^sup>2 = 0 \<longleftrightarrow> a = 0 \<and> b = 0 \<and> c = 0 \<and> d = 0"
proof -
  have "0 \<le> a\<^sup>2" "0 \<le> b\<^sup>2" "0 \<le> c\<^sup>2" "0 \<le> d\<^sup>2" by simp_all
  then have "a\<^sup>2 + b\<^sup>2 + c\<^sup>2 + d\<^sup>2 = 0 \<longleftrightarrow> a\<^sup>2 = 0 \<and> b\<^sup>2 = 0 \<and> c\<^sup>2 = 0 \<and> d\<^sup>2 = 0"
    by linarith
  then show ?thesis by simp
qed

lemma normalise_zero:
  "(w q)\<^sup>2 + (x q)\<^sup>2 + (y q)\<^sup>2 + (z q)\<^sup>2 = 0 \<Longrightarrow> normalise q = (None, q)"
  by (simp add: normalise_def normalise_try_def magnitude_eq py_div_def)

lemma normalise_nonzero:
  "(w q)\<^sup>2 + (x q)\<^sup>2 + (y q)\<^sup>2 + (z q)\<^sup>2 \<noteq> 0 \<Longrightarrow>
   normalise q = (None, q\<lparr>w := w q / sqrt ((w q)\<^sup>2 + (x q)\<^sup>2 + (y q)\<^sup>2 + (z q)\<^sup>2),
                           x := x q / sqrt ((w q)\<^sup>2 + (x q)\<^sup>2 + (y q)\<^sup>2 + (z q)\<^sup>2),
                           y := y q / sqrt ((w q)\<^sup>2 + (x q)\<^sup>2 + (y q)\<^sup>2 + (z q)\<^sup>2),
                           z := z q / sqrt ((w q)\<^sup>2 + (x q)\<^sup>2 + (y q)\<^sup>2 + (z q)\<^sup>2)\<rparr>)"
  by (simp add: normalise_def normalise_try_def magnitude_eq py_div_def Let_def)

lemma Quaternion_init_zero:
  "a\<^sup>2 + b\<^sup>2 + c\<^sup>2 + d\<^sup>2 = 0 \<Longrightarrow> Quaternion_init a b c d = Inr \<lparr>w = a, x = b, y = c, z = d\<rparr>"
  by (simp add: Quaternion_init_def normalise_zero)

lemma Quaternion_init_nonzero:
  "a\<^sup>2 + b\<^sup>2 + c\<^sup>2 + d\<^sup>2 \<noteq> 0 \<Longrightarrow>
   Quaternion_init a b c d =
     Inr \<lparr>w = a / sqrt (a\<^sup>2 + b\<^sup>2 + c\<^sup>2 + d\<^sup>2), x = b / sqrt (a\<^sup>2 + b\<^sup>2 + c\<^sup>2 + d\<^sup>2),
          y = c / sqrt (a\<^sup>2 + b\<^sup>2 + c\<^sup>2 + d\<^sup>2), z = d / sqrt (a\<^sup>2 + b\<^sup>2 + c\<^sup>2 + d\<^sup>2)\<rparr>"
  by (simp add: Quaternion_init_def normalise_nonzero)

lemma Quaternion_init_unit:
  "a\<^sup>2 + b\<^sup>2 + c\<^sup>2 + d\<^sup>2 = 1 \<Longrightarrow> Quaternion_init a b c d = Inr \<lparr>w = a, x = b, y = c, z = d\<rparr>"
  by (simp add: Quaternion_init_nonzero)

lemma magnitude_scaled:
  assumes "a\<^sup>2 + b\<^sup>2 + c\<^sup>2 + d\<^sup>2 \<noteq> 0"
  shows "magnitude \<lparr>w = a / sqrt (a\<^sup>2 + b\<^sup>2 + c\<^sup>2 + d\<^sup>2), x = b / sqrt (a\<^sup>2 + b\<^sup>2 + c\<^sup>2 + d\<^sup>2),
          y = c / sqrt (a\<^sup>2 + b\<^sup>2 + c\<^sup>2 + d\<^sup>2), z = d / sqrt (a\<^sup>2 + b\<^sup>2 + c\<^sup>2 + d\<^sup>2)\<rparr> = Inr 1"
proof -
  let ?s = "a\<^sup>2 + b\<^sup>2 + c\<^sup>2 + d\<^sup>2"
  have pos: "0 < ?s" using assms by (smt (verit) zero_le_power2)
  have sq: "(sqrt ?s)\<^sup>2 = ?s" using pos by simp
  have "(a / sqrt ?s)\<^sup>2 + (b / sqrt ?s)\<^sup>2 + (c / sqrt ?s)\<^sup>2 + (d / sqrt ?s)\<^sup>2
        = (a\<^sup>2 + b\<^sup>2 + c\<^sup>2 + d\<^sup>2) / (sqrt ?s)\<^sup>2"
    unfolding power_divide add_divide_distrib ..
  also have "\<dots> = 1" using pos sq by simp
  finally show ?thesis by (simp add: magnitude_eq)
qed

section \<open>Products, conjugates and differences\<close>

lemma four_square:
  "((a::real) * e - b * f - c * g - d * h)\<^sup>2 + (a * f + b * e + c * h - d * g)\<^sup>2
   + (a * g - b * h + c * e + d * f)\<^sup>2 + (a * h + b * g - c * f + d * e)\<^sup>2
   = (a\<^sup>2 + b\<^sup>2 + c\<^sup>2 + d\<^sup>2) * (e\<^sup>2 + f\<^sup>2 + g\<^sup>2 + h\<^sup>2)"
  by (simp add: power2_eq_square algebra_simps)

lemma magnitude_one_iff: "magnitude q = Inr 1 \<longleftrightarrow> (w q)\<^sup>2 + (x q)\<^sup>2 + (y q)\<^sup>2 + (z q)\<^sup>2 = 1"
  by (simp add: magnitude_eq)

lemma magnitude_zero_iff: "magnitude q = Inr 0 \<longleftrightarrow> (w q)\<^sup>2 + (x q)\<^sup>2 + (y q)\<^sup>2 + (z q)\<^sup>2 = 0"
  by (simp add: magnitude_eq)

lemma productOf_unit:
  assumes "magnitude p = Inr 1" "magnitude q = Inr 1"
  shows "productOf p q =
     Inr \<lparr>w = w p * w q - x p * x q - y p * y q - z p * z q,
          x = w p * x q + x p * w q + y p * z q - z p * y q,
          y = w p * y q - x p * z q + y p * w q + z p * x q,
          z = w p * z q + x p * y q - y p * x q + z p * w q\<rparr>"
  unfolding productOf_def
  apply (rule Quaternion_init_unit)
  using assms by (simp add: four_square magnitude_one_iff)

lemma conjugate_nonzero:
  assumes "(w q)\<^sup>2 + (x q)\<^sup>2 + (y q)\<^sup>2 + (z q)\<^sup>2 \<noteq> 0"
  shows "conjugate q = Inr \<lparr>w = w q / sqrt ((w q)\<^sup>2 + (x q)\<^sup>2 + (y q)\<^sup>2 + (z q)\<^sup>2),
      x = - x q / sqrt ((w q)\<^sup>2 + (x q)\<^sup>2 + (y q)\<^sup>2 + (z q)\<^sup>2),
      y = - y q / sqrt ((w q)\<^sup>2 + (x q)\<^sup>2 + (y q)\<^sup>2 + (z q)\<^sup>2),
      z = - z q / sqrt ((w q)\<^sup>2 + (x q)\<^sup>2 + (y q)\<^sup>2 + (z q)\<^sup>2)\<rparr>"
  using assms by (simp add: conjugate_def Quaternion_init_nonzero)

lemma conjugate_zero:
  assumes "(w q)\<^sup>2 + (x q)\<^sup>2 + (y q)\<^sup>2 + (z q)\<^sup>2 = 0"
  shows "conjugate q = Inr \<lparr>w = 0, x = 0, y = 0, z = 0\<rparr>"
  using assms by (simp add: conjugate_def Quaternion_init_zero sumsq_zero_iff)

lemma difference_self_unit:
  assumes "magnitude q = Inr 1"
  shows "difference q q = Inr \<lparr>w = 1, x = 0, y = 0, z = 0\<rparr>"
proof -
  have u: "(w q)\<^sup>2 + (x q)\<^sup>2 + (y q)\<^sup>2 + (z q)\<^sup>2 = 1" using assms by (simp add: magnitude_one_iff)
  have c: "conjugate q = Inr \<lparr>w = w q, x = - x q, y = - y q, z = - z q\<rparr>"
    using u by (simp add: conjugate_def Quaternion_init_unit)
  have "w q * w q + x q * x q + y q * y q + z q * z q = 1"
    using u by (simp add: power2_eq_square)
  then have "productOf q \<lparr>w = w q, x = - x q, y = - y q, z = - z q\<rparr> = Inr \<lparr>w = 1, x = 0, y = 0, z = 0\<rparr>"
    by (simp add: productOf_def Quaternion_init_unit algebra_simps)
  then show ?thesis by (simp add: difference_def c)
qed

section \<open>No operation of a quaternion raises\<close>

lemma Quaternion_init_total: "\<exists>q. Quaternion_init a b c d = Inr q"
  by (cases "a\<^sup>2 + b\<^sup>2 + c\<^sup>2 + d\<^sup>2 = 0") (simp_all add: Quaternion_init_zero Quaternion_init_nonzero)

lemma conjugate_total: "\<exists>r. conjugate q = Inr r"
  by (simp add: conjugate_def Quaternion_init_total)

lemma productOf_total: "\<exists>r. productOf p q = Inr r"
  by (simp add: productOf_def Quaternion_init_total)

lemma difference_total: "\<exists>r. difference p q = Inr r"
proof -
  obtain pc where "conjugate p = Inr pc" using conjugate_total by blast
  then show ?thesis by (simp add: difference_def productOf_total)
qed

lemma wrap_asin_total: "\<exists>a. wrap_asin v = Inr a"
proof -
  consider "v \<ge> 1" | "\<not> v \<ge> 1" "v \<le> -1" | "\<not> v \<ge> 1" "\<not> v \<le> -1" by blast
  then show ?thesis
  proof cases
    case 1
    then have "wrap_asin v = Inr (pi / 2)" by (simp add: wrap_asin_def)
    then show ?thesis by blast
  next
    case 2
    then have "wrap_asin v = Inr (- pi / 2)" by (simp add: wrap_asin_def)
    then show ?thesis by blast
  next
    case 3
    then have "wrap_asin v = Inr (arcsin v)" by (simp add: wrap_asin_def math_asin_def)
    then show ?thesis by blast
  qed
qed

lemma toEuler_total: "\<exists>e. toEuler q = Inr e"
proof -
  obtain a where "wrap_asin (2 * (w q * y q - z q * x q)) = Inr a"
    using wrap_asin_total by blast
  then show ?thesis by (simp add: toEuler_def Let_def)
qed

lemma toEuler_identity: "toEuler \<lparr>w = 1, x = 0, y = 0, z = 0\<rparr> = Inr \<lparr>yaw = 0, pitch = 0, roll = 0\<rparr>"
  by (simp add: toEuler_def wrap_asin_def math_asin_def math_atan2_def)

lemma toEuler_zero: "toEuler \<lparr>w = 0, x = 0, y = 0, z = 0\<rparr> = Inr \<lparr>yaw = 0, pitch = 0, roll = 0\<rparr>"
  by (simp add: toEuler_def wrap_asin_def math_asin_def math_atan2_def)

lemma Quaternion_init_positive:
  assumes "0 < m"
  shows "Quaternion_init m 0 0 0 = Inr \<lparr>w = 1, x = 0, y = 0, z = 0\<rparr>"
  using assms by (simp add: Quaternion_init_nonzero)

lemma difference_prev_zero:
  assumes "a\<^sup>2 + b\<^sup>2 + c\<^sup>2 + d\<^sup>2 = 0"
    and "Quaternion_init a b c d = Inr prev"
  shows "difference prev \<lparr>w = a, x = b, y = c, z = d\<rparr> = Inr \<lparr>w = 0, x = 0, y = 0, z = 0\<rparr>"
proof -
  have z: "a = 0" "b = 0" "c = 0" "d = 0" using assms(1) by (simp_all add: sumsq_zero_iff)
  have "prev = \<lparr>w = 0, x = 0, y = 0, z = 0\<rparr>"
    using assms(2) z by (simp add: Quaternion_init_zero)
  then show ?thesis
    using z by (simp add: difference_def conjugate_def productOf_def Quaternion_init_zero)
qed

lemma difference_prev_nonzero:
  assumes nz: "a\<^sup>2 + b\<^sup>2 + c\<^sup>2 + d\<^sup>2 \<noteq> 0"
    and "Quaternion_init a b c d = Inr prev"
  shows "difference prev \<lparr>w = a, x = b, y = c, z = d\<rparr> = Inr \<lparr>w = 1, x = 0, y = 0, z = 0\<rparr>"
proof -
  let ?s = "a\<^sup>2 + b\<^sup>2 + c\<^sup>2 + d\<^sup>2"
  let ?m = "sqrt ?s"
  have pos: "0 < ?s" using nz by (smt (verit) zero_le_power2)
  then have mpos: "0 < ?m" by simp
  have mm: "?m * ?m = ?s" using pos by simp
  have prev: "prev = \<lparr>w = a / ?m, x = b / ?m, y = c / ?m, z = d / ?m\<rparr>"
    using assms by (simp add: Quaternion_init_nonzero)
  have "magnitude prev = Inr 1" unfolding prev using nz by (rule magnitude_scaled)
  then have u: "(w prev)\<^sup>2 + (x prev)\<^sup>2 + (y prev)\<^sup>2 + (z prev)\<^sup>2 = 1"
    by (simp add: magnitude_one_iff)
  have c: "conjugate prev = Inr \<lparr>w = a / ?m, x = - (b / ?m), y = - (c / ?m), z = - (d / ?m)\<rparr>"
    using u by (simp add: conjugate_def Quaternion_init_unit prev)
  have "a * (a / ?m) + b * (b / ?m) + c * (c / ?m) + d * (d / ?m) = ?s / ?m"
    by (simp add: power2_eq_square add_divide_distrib)
  also have "\<dots> = ?m" using mpos mm by (simp add: field_simps)
  finally have w': "a * (a / ?m) + b * (b / ?m) + c * (c / ?m) + d * (d / ?m) = ?m" .
  have "productOf \<lparr>w = a, x = b, y = c, z = d\<rparr> \<lparr>w = a / ?m, x = - (b / ?m), y = - (c / ?m), z = - (d / ?m)\<rparr>
        = Quaternion_init ?m 0 0 0"
    using w' by (simp add: productOf_def algebra_simps)
  also have "\<dots> = Inr \<lparr>w = 1, x = 0, y = 0, z = 0\<rparr>"
    using mpos by (rule Quaternion_init_positive)
  finally show ?thesis by (simp add: difference_def c)
qed

lemma delta_unchanged_attitude:
  assumes "Quaternion_init a b c d = Inr prev"
  shows "\<exists>dq. difference prev \<lparr>w = a, x = b, y = c, z = d\<rparr> = Inr dq
              \<and> toEuler dq = Inr \<lparr>yaw = 0, pitch = 0, roll = 0\<rparr>"
proof (cases "a\<^sup>2 + b\<^sup>2 + c\<^sup>2 + d\<^sup>2 = 0")
  case True
  then show ?thesis using assms by (simp add: difference_prev_zero toEuler_zero)
next
  case False
  then show ?thesis using assms by (simp add: difference_prev_nonzero toEuler_identity)
qed

section \<open>The update step\<close>

lemma Quaternion_eta: "\<lparr>w = w q, x = x q, y = y q, z = z q\<rparr> = (q::Quaternion)"
  by simp

lemma update_zero_dt:
  "update k a t (time k) =
     (Some ZeroDivisionError,
      k\<lparr>time := time k, w := w (deref k a), x := x (deref k a),
        y := y (deref k a), z := z (deref k a), target := t\<rparr>)"
proof -
  obtain prev where p: "Quaternion_init (w k) (x k) (y k) (z k) = Inr prev"
    using Quaternion_init_total by blast
  obtain dq where d: "difference prev (deref k a) = Inr dq"
    using difference_total by blast
  obtain delta where e: "toEuler dq = Inr delta"
    using toEuler_total by blast
  show ?thesis
  proof (cases a)
    case Self
    then show ?thesis using p d e
      by (simp add: update_def Let_def deref_def as_Quaternion_def py_div_def)
  next
    case (Obj q)
    then show ?thesis using p d e
      by (simp add: update_def Let_def deref_def as_Quaternion_def py_div_def Quaternion_eta)
  qed
qed

lemma update_Self_moving_clock:
  assumes "now \<noteq> time k"
    and "difference (as_Quaternion k) (deref k t) = Inr er"
  shows "update k Self t now =
     (None, k\<lparr>time := now, target := t, degSecYPR := (0, 0, 0), error := er\<rparr>)"
proof -
  obtain prev where p: "Quaternion_init (w k) (x k) (y k) (z k) = Inr prev"
    using Quaternion_init_total by blast
  obtain dq where d: "difference prev \<lparr>w = w k, x = x k, y = y k, z = z k\<rparr> = Inr dq"
    and e: "toEuler dq = Inr \<lparr>yaw = 0, pitch = 0, roll = 0\<rparr>"
    using delta_unchanged_attitude [OF p] by blast
  have t: "deref (k\<lparr>time := now, target := t, degSecYPR := (0, 0, 0)\<rparr>) t = deref k t"
    by (cases t) (simp_all add: deref_def as_Quaternion_def)
  show ?thesis using p d e assms t
    by (simp add: update_def Let_def deref_def as_Quaternion_def py_div_def)
qed

lemma update_target: "target (snd (update k a t now)) = t"
proof -
  obtain prev where p: "Quaternion_init (w k) (x k) (y k) (z k) = Inr prev"
    using Quaternion_init_total by blast
  show ?thesis using p
    by (simp add: update_def Let_def split: sum.splits)
qed

lemma setTarget_moving_clock:
  assumes "now \<noteq> time k"
  shows "\<exists>er. setTarget k q now =
     (None, k\<lparr>time := now, target := q, degSecYPR := (0, 0, 0), error := er\<rparr>)"
proof -
  obtain er where e: "difference (as_Quaternion (k\<lparr>target := q\<rparr>)) (deref (k\<lparr>target := q\<rparr>) q) = Inr er"
    using difference_total by blast
  have "now \<noteq> time (k\<lparr>target := q\<rparr>)" using assms by simp
  from update_Self_moving_clock [OF this e]
  have "setTarget k q now = (None, k\<lparr>time := now, target := q, degSecYPR := (0, 0, 0), error := er\<rparr>)"
    by (simp add: setTarget_def)
  then show ?thesis by blast
qed

lemma Kinematics_init_identity:
  "Kinematics_init 1 0 0 0 now =
     Inr \<lparr>w = 1, x = 0, y = 0, z = 0, target = Self, time = now,
          degSecYPR = (0, 0, 0), error = \<lparr>w = 1, x = 0, y = 0, z = 0\<rparr>\<rparr>"
proof -
  have q: "Quaternion_init 1 0 0 0 = Inr \<lparr>w = 1, x = 0, y = 0, z = 0\<rparr>"
    by (simp add: Quaternion_init_unit)
  have "magnitude \<lparr>w = 1, x = 0, y = 0, z = 0\<rparr> = Inr 1" by (simp add: magnitude_eq)
  then have d: "difference \<lparr>w = 1, x = 0, y = 0, z = 0\<rparr> \<lparr>w = 1, x = 0, y = 0, z = 0\<rparr>
      = Inr \<lparr>w = 1, x = 0, y = 0, z = 0\<rparr>"
    by (rule difference_self_unit)
  show ?thesis by (simp add: Kinematics_init_def q d)
qed

lemma rotateTarget_target:
  assumes "productOf (deref k (target k)) (deref k q) = Inr t"
  shows "target (snd (rotateTarget k q now)) = Obj t"
  using assms by (simp add: rotateTarget_def update_target)

section \<open>Unit norm\<close>






section \<open>Unit norm within the range of doubles\<close>






















section \<open>Euler angles of a quaternion built from Euler angles\<close>







section \<open>The properties of the specification\<close>

text \<open>
  C3. Constructing \<open>Quaternion(0, 0, 0, 0)\<close> does not raise and gives the four zeros back.
  \<open>normalise\<close> on a quaternion of magnitude zero raises \<open>ZeroDivisionError\<close> at its first
  division, before any component has been stored, and swallows it: the call returns
  normally with all four components as they were.
\<close>

theorem zero_magnitude_left_unchanged:
  "Quaternion_init 0 0 0 0 = Inr \<lparr>w = 0, x = 0, y = 0, z = 0\<rparr>
   \<and> (magnitude q = Inr 0 \<longrightarrow>
        normalise_try q = (Some ZeroDivisionError, q) \<and> normalise q = (None, q))"
  by (simp add: Quaternion_init_zero magnitude_zero_iff normalise_zero)
     (simp add: normalise_try_def magnitude_eq py_div_def)

theorem zero_magnitude_left_unchanged_witness:
  "magnitude \<lparr>w = 0, x = 0, y = 0, z = 0\<rparr> = Inr 0
   \<and> normalise_try \<lparr>w = 0, x = 0, y = 0, z = 0\<rparr> = (Some ZeroDivisionError, \<lparr>w = 0, x = 0, y = 0, z = 0\<rparr>)
   \<and> normalise \<lparr>w = 0, x = 0, y = 0, z = 0\<rparr> = (None, \<lparr>w = 0, x = 0, y = 0, z = 0\<rparr>)"
  using zero_magnitude_left_unchanged [of "\<lparr>w = 0, x = 0, y = 0, z = 0\<rparr>"]
  by (simp add: magnitude_eq)

text \<open>
  C7. For unit quaternions \<open>p\<close> and \<open>q\<close>, \<open>p.productOf(q)\<close> returns the Hamilton product,
  component by component in the standard bilinear form (the normalisation of the
  constructor divides by one).
\<close>

theorem productOf_hamilton:
  "magnitude p = Inr 1 \<Longrightarrow> magnitude q = Inr 1 \<Longrightarrow>
   productOf p q =
     Inr \<lparr>w = w p * w q - x p * x q - y p * y q - z p * z q,
          x = w p * x q + x p * w q + y p * z q - z p * y q,
          y = w p * y q - x p * z q + y p * w q + z p * x q,
          z = w p * z q + x p * y q - y p * x q + z p * w q\<rparr>"
  by (rule productOf_unit)

theorem productOf_hamilton_witness:
  "magnitude \<lparr>w = 0, x = 1, y = 0, z = 0\<rparr> = Inr 1
   \<and> magnitude \<lparr>w = 0, x = 0, y = 1, z = 0\<rparr> = Inr 1
   \<and> productOf \<lparr>w = 0, x = 1, y = 0, z = 0\<rparr> \<lparr>w = 0, x = 0, y = 1, z = 0\<rparr>
       = Inr \<lparr>w = 0, x = 0, y = 0, z = 1\<rparr>"
proof -
  have a: "magnitude \<lparr>w = 0, x = 1, y = 0, z = 0\<rparr> = Inr 1" by (simp add: magnitude_eq)
  have b: "magnitude \<lparr>w = 0, x = 0, y = 1, z = 0\<rparr> = Inr 1" by (simp add: magnitude_eq)
  show ?thesis using a b productOf_hamilton [OF a b] by simp
qed

text \<open>
  C8. For every unit quaternion \<open>q\<close>, \<open>q.difference(q)\<close> is the identity quaternion, and
  \<open>difference\<close> is the product of its argument with the conjugate of \<open>self\<close>.
\<close>

theorem difference_self_identity:
  "magnitude q = Inr 1 \<Longrightarrow> difference q q = Inr \<lparr>w = 1, x = 0, y = 0, z = 0\<rparr>
     \<and> (\<exists>qc. conjugate q = Inr qc \<and> difference q q = productOf q qc)"
proof -
  assume u: "magnitude q = Inr 1"
  obtain qc where c: "conjugate q = Inr qc" using conjugate_total by blast
  then have "difference q q = productOf q qc" by (simp add: difference_def)
  with c difference_self_unit [OF u] show ?thesis by blast
qed

theorem difference_self_identity_witness:
  "magnitude \<lparr>w = 3 / 5, x = 0, y = 4 / 5, z = 0\<rparr> = Inr 1
   \<and> difference \<lparr>w = 3 / 5, x = 0, y = 4 / 5, z = 0\<rparr> \<lparr>w = 3 / 5, x = 0, y = 4 / 5, z = 0\<rparr>
       = Inr \<lparr>w = 1, x = 0, y = 0, z = 0\<rparr>"
proof -
  have a: "magnitude \<lparr>w = 3 / 5, x = 0, y = 4 / 5, z = 0\<rparr> = Inr 1"
    by (simp add: magnitude_eq power2_eq_square)
  show ?thesis using a difference_self_identity [OF a] by simp
qed

text \<open>
  C1, as the specification states it, fails: with a time delta of zero the division of
  the first velocity raises \<open>ZeroDivisionError\<close>, which reaches the caller. On a fresh
  tracker, updated at the timestamp of its construction, the call raises and
  \<open>getAngularVelocities\<close> still returns the zeros of the constructor.
\<close>

theorem update_zero_dt_completes_counterexample:
  "Kinematics_init 1 0 0 0 5 =
     Inr \<lparr>w = 1, x = 0, y = 0, z = 0, target = Self, time = 5,
          degSecYPR = (0, 0, 0), error = \<lparr>w = 1, x = 0, y = 0, z = 0\<rparr>\<rparr>
   \<and> fst (update \<lparr>w = 1, x = 0, y = 0, z = 0, target = Self, time = 5,
          degSecYPR = (0, 0, 0), error = \<lparr>w = 1, x = 0, y = 0, z = 0\<rparr>\<rparr>
        (Obj \<lparr>w = 0, x = 1, y = 0, z = 0\<rparr>) (Obj \<lparr>w = 0, x = 1, y = 0, z = 0\<rparr>) 5)
      = Some ZeroDivisionError
   \<and> getAngularVelocities (snd (update \<lparr>w = 1, x = 0, y = 0, z = 0, target = Self, time = 5,
          degSecYPR = (0, 0, 0), error = \<lparr>w = 1, x = 0, y = 0, z = 0\<rparr>\<rparr>
        (Obj \<lparr>w = 0, x = 1, y = 0, z = 0\<rparr>) (Obj \<lparr>w = 0, x = 1, y = 0, z = 0\<rparr>) 5))
      = (0, 0, 0)"
  using update_zero_dt [of "\<lparr>w = 1, x = 0, y = 0, z = 0, target = Self, time = 5,
          degSecYPR = (0, 0, 0), error = \<lparr>w = 1, x = 0, y = 0, z = 0\<rparr>\<rparr>"
          "Obj \<lparr>w = 0, x = 1, y = 0, z = 0\<rparr>" "Obj \<lparr>w = 0, x = 1, y = 0, z = 0\<rparr>"]
  by (simp add: Kinematics_init_identity getAngularVelocities_def)

text \<open>
  C1, amended. When the clock returns the timestamp of the previous update, \<open>update\<close>
  raises \<open>ZeroDivisionError\<close> to the caller, and \<open>getAngularVelocities\<close> returns the
  velocities cached before the call.
\<close>

theorem update_zero_dt_raises:
  "now = time k \<Longrightarrow>
     fst (update k a t now) = Some ZeroDivisionError
     \<and> getAngularVelocities (snd (update k a t now)) = getAngularVelocities k"
  by (simp add: update_zero_dt getAngularVelocities_def)

theorem update_zero_dt_raises_witness:
  "(7::real) = time \<lparr>w = 1, x = 0, y = 0, z = 0, target = Self, time = 7,
          degSecYPR = (3, 2, 1), error = \<lparr>w = 1, x = 0, y = 0, z = 0\<rparr>\<rparr>
   \<and> fst (update \<lparr>w = 1, x = 0, y = 0, z = 0, target = Self, time = 7,
          degSecYPR = (3, 2, 1), error = \<lparr>w = 1, x = 0, y = 0, z = 0\<rparr>\<rparr>
        (Obj \<lparr>w = 0, x = 0, y = 1, z = 0\<rparr>) Self 7) = Some ZeroDivisionError
   \<and> getAngularVelocities (snd (update \<lparr>w = 1, x = 0, y = 0, z = 0, target = Self, time = 7,
          degSecYPR = (3, 2, 1), error = \<lparr>w = 1, x = 0, y = 0, z = 0\<rparr>\<rparr>
        (Obj \<lparr>w = 0, x = 0, y = 1, z = 0\<rparr>) Self 7)) = (3, 2, 1)"
  using update_zero_dt_raises [of 7 "\<lparr>w = 1, x = 0, y = 0, z = 0, target = Self, time = 7,
          degSecYPR = (3, 2, 1), error = \<lparr>w = 1, x = 0, y = 0, z = 0\<rparr>\<rparr>"
          "Obj \<lparr>w = 0, x = 0, y = 1, z = 0\<rparr>" Self]
  by (simp add: getAngularVelocities_def)

text \<open>
  C10. With a time delta of zero \<open>update\<close> raises \<open>ZeroDivisionError\<close> after it has stored
  the timestamp, the four components of the new attitude and the target; the cached
  velocities and the cached error quaternion are those of the previous update.
\<close>

theorem update_zero_dt_not_atomic:
  "now = time k \<Longrightarrow>
     update k a t now =
       (Some ZeroDivisionError,
        k\<lparr>time := now, w := w (deref k a), x := x (deref k a),
          y := y (deref k a), z := z (deref k a), target := t\<rparr>)
     \<and> degSecYPR (snd (update k a t now)) = degSecYPR k
     \<and> error (snd (update k a t now)) = error k"
proof -
  assume "now = time k"
  then have u: "update k a t now =
       (Some ZeroDivisionError,
        k\<lparr>time := now, w := w (deref k a), x := x (deref k a),
          y := y (deref k a), z := z (deref k a), target := t\<rparr>)"
    by (simp add: update_zero_dt)
  have e: "error (k\<lparr>time := now, w := w (deref k a), x := x (deref k a),
          y := y (deref k a), z := z (deref k a), target := t\<rparr>) = error k"
    by (cases k) simp
  show ?thesis unfolding u using e by simp
qed

theorem update_zero_dt_not_atomic_witness:
  "(7::real) = time \<lparr>w = 1, x = 0, y = 0, z = 0, target = Self, time = 7,
          degSecYPR = (3, 2, 1), error = \<lparr>w = 1, x = 0, y = 0, z = 0\<rparr>\<rparr>
   \<and> update \<lparr>w = 1, x = 0, y = 0, z = 0, target = Self, time = 7,
          degSecYPR = (3, 2, 1), error = \<lparr>w = 1, x = 0, y = 0, z = 0\<rparr>\<rparr>
        (Obj \<lparr>w = 0, x = 0, y = 1, z = 0\<rparr>) (Obj \<lparr>w = 0, x = 0, y = 0, z = 1\<rparr>) 7
     = (Some ZeroDivisionError,
        \<lparr>w = 0, x = 0, y = 1, z = 0, target = Obj \<lparr>w = 0, x = 0, y = 0, z = 1\<rparr>, time = 7,
          degSecYPR = (3, 2, 1), error = \<lparr>w = 1, x = 0, y = 0, z = 0\<rparr>\<rparr>)"
  using update_zero_dt_not_atomic [of 7 "\<lparr>w = 1, x = 0, y = 0, z = 0, target = Self, time = 7,
          degSecYPR = (3, 2, 1), error = \<lparr>w = 1, x = 0, y = 0, z = 0\<rparr>\<rparr>"
          "Obj \<lparr>w = 0, x = 0, y = 1, z = 0\<rparr>" "Obj \<lparr>w = 0, x = 0, y = 0, z = 1\<rparr>"]
  by (simp add: deref_def)

text \<open>
  C5. When the clock has advanced since the last update, \<open>setTarget(q)\<close> returns normally,
  leaves the four components of the current attitude as they were, makes \<open>q\<close> the target,
  and caches the angular velocity \<open>(0, 0, 0)\<close>.
\<close>

theorem setTarget_retargets:
  "time k < now \<Longrightarrow>
     fst (setTarget k q now) = None
     \<and> as_Quaternion (snd (setTarget k q now)) = as_Quaternion k
     \<and> target (snd (setTarget k q now)) = q
     \<and> getAngularVelocities (snd (setTarget k q now)) = (0, 0, 0)"
proof -
  assume "time k < now"
  then have "now \<noteq> time k" by simp
  then obtain er where "setTarget k q now =
     (None, k\<lparr>time := now, target := q, degSecYPR := (0, 0, 0), error := er\<rparr>)"
    using setTarget_moving_clock by blast
  then show ?thesis by (cases k) (simp add: as_Quaternion_def getAngularVelocities_def)
qed

theorem setTarget_retargets_witness:
  "time \<lparr>w = 0, x = 0, y = 1, z = 0, target = Self, time = 7,
          degSecYPR = (3, 2, 1), error = \<lparr>w = 1, x = 0, y = 0, z = 0\<rparr>\<rparr> < 8
   \<and> fst (setTarget \<lparr>w = 0, x = 0, y = 1, z = 0, target = Self, time = 7,
          degSecYPR = (3, 2, 1), error = \<lparr>w = 1, x = 0, y = 0, z = 0\<rparr>\<rparr>
          (Obj \<lparr>w = 0, x = 0, y = 0, z = 1\<rparr>) 8) = None
   \<and> as_Quaternion (snd (setTarget \<lparr>w = 0, x = 0, y = 1, z = 0, target = Self, time = 7,
          degSecYPR = (3, 2, 1), error = \<lparr>w = 1, x = 0, y = 0, z = 0\<rparr>\<rparr>
          (Obj \<lparr>w = 0, x = 0, y = 0, z = 1\<rparr>) 8)) = \<lparr>w = 0, x = 0, y = 1, z = 0\<rparr>
   \<and> target (snd (setTarget \<lparr>w = 0, x = 0, y = 1, z = 0, target = Self, time = 7,
          degSecYPR = (3, 2, 1), error = \<lparr>w = 1, x = 0, y = 0, z = 0\<rparr>\<rparr>
          (Obj \<lparr>w = 0, x = 0, y = 0, z = 1\<rparr>) 8)) = Obj \<lparr>w = 0, x = 0, y = 0, z = 1\<rparr>
   \<and> getAngularVelocities (snd (setTarget \<lparr>w = 0, x = 0, y = 1, z = 0, target = Self, time = 7,
          degSecYPR = (3, 2, 1), error = \<lparr>w = 1, x = 0, y = 0, z = 0\<rparr>\<rparr>
          (Obj \<lparr>w = 0, x = 0, y = 0, z = 1\<rparr>) 8)) = (0, 0, 0)"
  using setTarget_retargets [of "\<lparr>w = 0, x = 0, y = 1, z = 0, target = Self, time = 7,
          degSecYPR = (3, 2, 1), error = \<lparr>w = 1, x = 0, y = 0, z = 0\<rparr>\<rparr>" 8
          "Obj \<lparr>w = 0, x = 0, y = 0, z = 1\<rparr>"]
  by (simp add: as_Quaternion_def)

text \<open>
  C6. Whatever the tracker and the quaternion \<open>q\<close>, \<open>rotateTarget(q)\<close> replaces the target
  by \<open>old_target.productOf(q)\<close>. With the old target \<open>i\<close> and \<open>q = j\<close> the new target is
  \<open>k = i * j\<close>: neither \<open>j * i = -k\<close> nor \<open>j\<close> itself.
\<close>

theorem rotateTarget_post_multiplies:
  "(\<exists>t. productOf (deref k (target k)) (deref k q) = Inr t
        \<and> target (snd (rotateTarget k q now)) = Obj t)
   \<and> target (snd (rotateTarget
         \<lparr>w = 1, x = 0, y = 0, z = 0, target = Obj \<lparr>w = 0, x = 1, y = 0, z = 0\<rparr>, time = 7,
          degSecYPR = (0, 0, 0), error = \<lparr>w = 0, x = 1, y = 0, z = 0\<rparr>\<rparr>
         (Obj \<lparr>w = 0, x = 0, y = 1, z = 0\<rparr>) 8)) = Obj \<lparr>w = 0, x = 0, y = 0, z = 1\<rparr>
   \<and> productOf \<lparr>w = 0, x = 0, y = 1, z = 0\<rparr> \<lparr>w = 0, x = 1, y = 0, z = 0\<rparr>
        = Inr \<lparr>w = 0, x = 0, y = 0, z = - 1\<rparr>"
proof -
  obtain t where t: "productOf (deref k (target k)) (deref k q) = Inr t"
    using productOf_total by blast
  have a: "\<exists>t. productOf (deref k (target k)) (deref k q) = Inr t
        \<and> target (snd (rotateTarget k q now)) = Obj t"
    using t rotateTarget_target [OF t] by blast
  have i: "magnitude \<lparr>w = 0, x = 1, y = 0, z = 0\<rparr> = Inr 1" by (simp add: magnitude_eq)
  have j: "magnitude \<lparr>w = 0, x = 0, y = 1, z = 0\<rparr> = Inr 1" by (simp add: magnitude_eq)
  have ij: "productOf \<lparr>w = 0, x = 1, y = 0, z = 0\<rparr> \<lparr>w = 0, x = 0, y = 1, z = 0\<rparr>
        = Inr \<lparr>w = 0, x = 0, y = 0, z = 1\<rparr>"
    using productOf_unit [OF i j] by simp
  have ji: "productOf \<lparr>w = 0, x = 0, y = 1, z = 0\<rparr> \<lparr>w = 0, x = 1, y = 0, z = 0\<rparr>
        = Inr \<lparr>w = 0, x = 0, y = 0, z = - 1\<rparr>"
    using productOf_unit [OF j i] by simp
  have b: "target (snd (rotateTarget
         \<lparr>w = 1, x = 0, y = 0, z = 0, target = Obj \<lparr>w = 0, x = 1, y = 0, z = 0\<rparr>, time = 7,
          degSecYPR = (0, 0, 0), error = \<lparr>w = 0, x = 1, y = 0, z = 0\<rparr>\<rparr>
         (Obj \<lparr>w = 0, x = 0, y = 1, z = 0\<rparr>) 8)) = Obj \<lparr>w = 0, x = 0, y = 0, z = 1\<rparr>"
    by (rule rotateTarget_target) (simp add: deref_def ij)
  show ?thesis using a b ji by blast
qed

text \<open>
  C9. \<open>_wrap_asin\<close> returns \<open>pi / 2\<close> for every input at or above 1 and \<open>- pi / 2\<close> for every
  input at or below -1, and \<open>toEuler\<close> then reports a pitch of 90 and of -90 degrees; the
  inputs 1.0000001 and -1.0000001 are such inputs.
\<close>

theorem wrap_asin_clamps:
  "(1 \<le> v \<longrightarrow> wrap_asin v = Inr (pi / 2))
   \<and> (v \<le> - 1 \<longrightarrow> wrap_asin v = Inr (- pi / 2))
   \<and> (1 \<le> 2 * (w q * y q - z q * x q) \<longrightarrow> (\<exists>e. toEuler q = Inr e \<and> pitch e = 90))
   \<and> (2 * (w q * y q - z q * x q) \<le> - 1 \<longrightarrow> (\<exists>e. toEuler q = Inr e \<and> pitch e = - 90))"
  by (simp add: wrap_asin_def toEuler_def Let_def)


theorem wrap_asin_clamps_witness:
  "(1::real) \<le> 10000001 / 10000000
   \<and> wrap_asin (10000001 / 10000000) = Inr (pi / 2)
   \<and> (\<exists>e. toEuler \<lparr>w = 10000001 / 20000000, x = 0, y = 1, z = 0\<rparr> = Inr e \<and> pitch e = 90)
   \<and> - (10000001 / 10000000) \<le> (- 1::real)
   \<and> wrap_asin (- (10000001 / 10000000)) = Inr (- pi / 2)
   \<and> (\<exists>e. toEuler \<lparr>w = - (10000001 / 20000000), x = 0, y = 1, z = 0\<rparr> = Inr e \<and> pitch e = - 90)"
  using wrap_asin_clamps [of "10000001 / 10000000" "\<lparr>w = 10000001 / 20000000, x = 0, y = 1, z = 0\<rparr>"]
    wrap_asin_clamps [of "- (10000001 / 10000000)" "\<lparr>w = - (10000001 / 20000000), x = 0, y = 1, z = 0\<rparr>"]
  by simp







end
